theory Spec2Isabelle
  imports Complex_Main
begin

section \<open>Numbers and strings of the program\<close>

text \<open>
  The program is a TypeScript script (\<^verbatim>\<open>src/index.ts\<close>). Its numbers are modelled
  as exact rationals together with the not-a-number value: \<open>NaN\<close> is what the script gets
  from the time value of an invalid date and what it stores itself for a pull request
  without approval. Infinities never arise (every divisor is a non-zero literal), and the
  rounding error of binary floating point is not part of the model.
\<close>

datatype jsnum = NaN | Fin rat

text \<open>A string is the list of its UTF-16 code units.\<close>

type_synonym js_string = "nat list"

definition ascii :: "string \<Rightarrow> js_string" where
  "ascii s = map of_char s"

text \<open>\<^verbatim>\<open>a - b\<close>, \<^verbatim>\<open>a / c\<close> for a non-zero literal \<open>c\<close>, \<^verbatim>\<open>a > b\<close> and \<^verbatim>\<open>a < b\<close>:
  arithmetic on \<open>NaN\<close> gives \<open>NaN\<close>, every comparison with \<open>NaN\<close> is false.\<close>

fun num_sub :: "jsnum \<Rightarrow> jsnum \<Rightarrow> jsnum" where
  "num_sub (Fin a) (Fin b) = Fin (a - b)"
| "num_sub _ _ = NaN"

fun num_div :: "jsnum \<Rightarrow> rat \<Rightarrow> jsnum" where
  "num_div (Fin a) c = Fin (a / c)"
| "num_div NaN c = NaN"

fun num_gt :: "jsnum \<Rightarrow> jsnum \<Rightarrow> bool" where
  "num_gt (Fin a) (Fin b) = (a > b)"
| "num_gt _ _ = False"

fun num_lt :: "jsnum \<Rightarrow> jsnum \<Rightarrow> bool" where
  "num_lt (Fin a) (Fin b) = (a < b)"
| "num_lt _ _ = False"

text \<open>
  Modelled from the spec: \<^verbatim>\<open>round\<close> is imported from the mathjs package, which is not
  among the sources. The spec calls its result the rounded minute count: the nearest
  integer, a tie going away from zero (so upwards for the non-negative values), and
  \<open>NaN\<close> stays \<open>NaN\<close>.
\<close>

fun round_num :: "jsnum \<Rightarrow> jsnum" where
  "round_num NaN = NaN"
| "round_num (Fin x) =
     Fin (of_int (if 0 \<le> x then \<lfloor>x + 1 / 2\<rfloor> else - \<lfloor>- x + 1 / 2\<rfloor>))"

text \<open>Decimal digits of a natural number, most significant first.\<close>

fun digits :: "nat \<Rightarrow> js_string" where
  "digits n = (if n < 10 then [48 + n] else digits (n div 10) @ [48 + n mod 10])"

text \<open>
  The conversion of a number to a string inside a template literal. The script applies it
  to results of \<^verbatim>\<open>round\<close> only, which are integers or \<open>NaN\<close>; the integer part is
  what the model prints.
\<close>

fun num_toString :: "jsnum \<Rightarrow> js_string" where
  "num_toString NaN = ascii ''NaN''"
| "num_toString (Fin x) =
     (if x < 0 then ascii ''-'' @ digits (nat \<lfloor>- x\<rfloor>) else digits (nat \<lfloor>x\<rfloor>))"

text \<open>
  \<^verbatim>\<open>x.toFixed(1)\<close>: the integer \<open>n\<close> with \<open>n / 10\<close> nearest to \<open>x\<close> (the larger one at a
  tie), printed with its last digit behind the decimal point. The script calls it on
  values above 1 only. (From 10 to the power 21 on, far beyond any lead time, the
  language switches to the exponent notation; the model does not.)
\<close>

fun toFixed1 :: "jsnum \<Rightarrow> js_string" where
  "toFixed1 NaN = ascii ''NaN''"
| "toFixed1 (Fin x) =
     (let n = nat \<lfloor>\<bar>x\<bar> * 10 + 1 / 2\<rfloor>
      in (if x < 0 then ascii ''-'' else []) @ digits (n div 10) @ ascii ''.'' @ digits (n mod 10))"

section \<open>Time utilities\<close>

definition getLeadTimeMinutes :: "jsnum \<Rightarrow> jsnum \<Rightarrow> jsnum" where
  "getLeadTimeMinutes from to = round_num (num_div (num_div (num_sub to from) 1000) 60)"

text \<open>The three unit suffixes of the duration strings (days, hours, minutes), as the
  code units of the literals in the source.\<close>

definition suffix_days :: js_string where
  "suffix_days = [0x65E5]"

definition suffix_hours :: js_string where
  "suffix_hours = [0x6642, 0x9593]"

definition suffix_minutes :: js_string where
  "suffix_minutes = [0x5206]"

definition minToTimeString :: "jsnum \<Rightarrow> js_string" where
  "minToTimeString m =
     (if num_gt m (Fin 60)
      then (if num_gt (num_div m 60) (Fin 24)
            then toFixed1 (num_div (num_div m 60) 24) @ suffix_days
            else toFixed1 (num_div m 60) @ suffix_hours)
      else num_toString (round_num m) @ suffix_minutes)"

section \<open>Data returned by the hosting platform\<close>

text \<open>
  The fields the script reads of a review comment, a formal review, a timeline event and
  a pull request of the search. A login is absent when the item has no user. A timestamp
  of the platform is an ISO 8601 string; it is modelled by the epoch milliseconds that
  \<^verbatim>\<open>new Date\<close> reads from it. The script provides for a missing timestamp of a comment
  or of a review (\<^verbatim>\<open>created_at ?? ''\<close>, \<^verbatim>\<open>submitted_at ?? ''\<close>), so these are
  optional.
\<close>

record review_comment =
  comment_user :: "js_string option"
  comment_created_at :: "int option"

record review =
  review_user :: "js_string option"
  review_state :: js_string
  review_submitted_at :: "int option"

record issue_event =
  event_event :: js_string
  event_created_at :: int

record pull =
  pull_number :: nat
  pull_title :: js_string
  pull_user :: "js_string option"
  pull_labels :: "js_string option list"
  pull_created_at :: int

text \<open>
  The environment of a run: the two configuration strings that reach the output, the
  three list endpoints of the platform (answering for a pull request number; failures of
  the network are not modelled), and the two date formats of the dayjs package
  (\<^verbatim>\<open>YY/MM/DD(dd)\<close> and \<^verbatim>\<open>YY/MM/DD(dd) HH:mm\<close> in the Japanese locale), which is not
  among the sources and is taken as given.
\<close>

record env =
  REPO :: js_string
  RANGE_OF_DATE :: js_string
  listReviewComments :: "nat \<Rightarrow> review_comment list"
  listReviews :: "nat \<Rightarrow> review list"
  listEvents :: "nat \<Rightarrow> issue_event list"
  format_date :: "int \<Rightarrow> js_string"
  format_datetime :: "int \<Rightarrow> js_string"

record result =
  result_title :: js_string
  result_labels :: "js_string list"
  result_createdDate :: js_string
  result_reviewRequestedDate :: js_string
  result_firstCommentedAt :: "jsnum option"
  result_firstCommentLeadTime :: jsnum
  result_approvedDateTime :: js_string
  result_approvedLeadTime :: jsnum

text \<open>
  What the script writes to the console, one value for each \<^verbatim>\<open>console.log\<close>: the line
  of a slow pull request (title, author, formatted approval lead time), the header
  (repository, date range as configured, number of records), the two percentile blocks
  (50th and 90th percentile, formatted) and the message that there are no results.
\<close>

datatype console_line =
    Flagged js_string "js_string option" js_string
  | Header js_string js_string nat
  | FirstCommentSummary js_string js_string
  | ApprovedSummary js_string js_string
  | NoResults

section \<open>Dates and sorting\<close>

text \<open>
  A \<^verbatim>\<open>Date\<close> object is its time value, \<open>NaN\<close> for an invalid date.
  \<open>Date_parse\<close> is \<^verbatim>\<open>new Date(s).getTime()\<close> for a timestamp string, \<open>Date_of\<close> is
  \<^verbatim>\<open>new Date(s ?? '')\<close> for an optional one, and \<open>getTime\<close> is
  \<^verbatim>\<open>new Date(d).getTime()\<close> for a date that may be \<^verbatim>\<open>undefined\<close> (the first element
  of an empty array).
\<close>

definition Date_parse :: "int \<Rightarrow> jsnum" where
  "Date_parse s = Fin (of_int s)"

definition Date_of :: "int option \<Rightarrow> jsnum" where
  "Date_of s = (case s of None \<Rightarrow> NaN | Some t \<Rightarrow> Date_parse t)"

definition getTime :: "jsnum option \<Rightarrow> jsnum" where
  "getTime d = (case d of None \<Rightarrow> NaN | Some t \<Rightarrow> t)"

text \<open>
  \<^verbatim>\<open>Array.prototype.sort\<close> with a comparison function. The language fixes the result
  (ascending and stable) when the comparison is consistent; a comparison result \<open>NaN\<close>
  counts as equal, and then the order is left to the engine. The model is the stable
  insertion sort: an element moves behind exactly the elements that compare strictly
  smaller.
\<close>

fun sort_insert :: "('a \<Rightarrow> 'a \<Rightarrow> jsnum) \<Rightarrow> 'a \<Rightarrow> 'a list \<Rightarrow> 'a list" where
  "sort_insert cmp x [] = [x]"
| "sort_insert cmp x (y # ys) =
     (if num_lt (cmp y x) (Fin 0) then y # sort_insert cmp x ys else x # y # ys)"

fun sort_js :: "('a \<Rightarrow> 'a \<Rightarrow> jsnum) \<Rightarrow> 'a list \<Rightarrow> 'a list" where
  "sort_js cmp [] = []"
| "sort_js cmp (x # xs) = sort_insert cmp x (sort_js cmp xs)"

section \<open>Enrichment of one pull request\<close>

definition labels_of :: "pull \<Rightarrow> js_string list" where
  "labels_of pull =
     map the (filter (\<lambda>label. case label of None \<Rightarrow> False | Some n \<Rightarrow> n \<noteq> [])
       (pull_labels pull))"

definition reviewRequestedAt_of :: "issue_event list \<Rightarrow> int option" where
  "reviewRequestedAt_of events =
     map_option event_created_at
       (find (\<lambda>event. event_event event = ascii ''review_requested'') events)"

definition firstCommentedAt_of ::
  "js_string option \<Rightarrow> review_comment list \<Rightarrow> review list \<Rightarrow> jsnum option" where
  "firstCommentedAt_of user comments reviews =
     (case sort_js (\<lambda>a b. num_sub a b)
             (map (\<lambda>comment. Date_of (comment_created_at comment))
                (filter (\<lambda>comment. comment_user comment \<noteq> user) comments) @
              map (\<lambda>review. Date_of (review_submitted_at review))
                (filter (\<lambda>review. review_user review \<noteq> user) reviews)) of
        [] \<Rightarrow> None
      | d # _ \<Rightarrow> Some d)"

definition reviewStartedAt_of :: "int option \<Rightarrow> jsnum option \<Rightarrow> int \<Rightarrow> int" where
  "reviewStartedAt_of reviewRequestedAt firstCommentedAt created_at =
     (case reviewRequestedAt of
        None \<Rightarrow> created_at
      | Some t \<Rightarrow>
          if num_lt (Date_parse t) (getTime firstCommentedAt) then t else created_at)"

definition approvedAt_of :: "review list \<Rightarrow> int option" where
  "approvedAt_of reviews =
     (case find (\<lambda>review. review_state review = ascii ''APPROVED'') reviews of
        None \<Rightarrow> None
      | Some review \<Rightarrow> review_submitted_at review)"

definition firstCommentLeadTime_of :: "int \<Rightarrow> jsnum option \<Rightarrow> jsnum" where
  "firstCommentLeadTime_of reviewStartedAt firstCommentedAt =
     getLeadTimeMinutes (Date_parse reviewStartedAt) (getTime firstCommentedAt)"

definition approvedLeadTime_of :: "int \<Rightarrow> int option \<Rightarrow> jsnum" where
  "approvedLeadTime_of reviewStartedAt approvedAt =
     (case approvedAt of
        Some t \<Rightarrow> getLeadTimeMinutes (Date_parse reviewStartedAt) (Date_parse t)
      | None \<Rightarrow> NaN)"

text \<open>The body of the loop over the pull requests: what it prints and the record it
  appends.\<close>

definition enrich :: "env \<Rightarrow> pull \<Rightarrow> console_line list \<times> result" where
  "enrich env pull =
     (let user = pull_user pull;
          comments = listReviewComments env (pull_number pull);
          reviews = listReviews env (pull_number pull);
          events = listEvents env (pull_number pull);
          reviewRequestedAt = reviewRequestedAt_of events;
          firstCommentedAt = firstCommentedAt_of user comments reviews;
          reviewStartedAt =
            reviewStartedAt_of reviewRequestedAt firstCommentedAt (pull_created_at pull);
          approvedAt = approvedAt_of reviews;
          firstCommentLeadTime = firstCommentLeadTime_of reviewStartedAt firstCommentedAt;
          approvedLeadTime = approvedLeadTime_of reviewStartedAt approvedAt
      in ((if num_gt firstCommentLeadTime (Fin (60 * 24 * 2))
           then [Flagged (pull_title pull) user (minToTimeString approvedLeadTime)]
           else []),
          \<lparr>result_title = pull_title pull,
           result_labels = labels_of pull,
           result_createdDate = format_date env (pull_created_at pull),
           result_reviewRequestedDate =
             (case reviewRequestedAt of Some t \<Rightarrow> format_datetime env t | None \<Rightarrow> []),
           result_firstCommentedAt = firstCommentedAt,
           result_firstCommentLeadTime = firstCommentLeadTime,
           result_approvedDateTime =
             (case approvedAt of Some t \<Rightarrow> format_datetime env t | None \<Rightarrow> []),
           result_approvedLeadTime = approvedLeadTime\<rparr>))"

text \<open>The loop: the pull requests in order, the console output and the records growing
  at the end.\<close>

fun enrich_loop ::
  "env \<Rightarrow> pull list \<Rightarrow> console_line list \<times> result list \<Rightarrow> console_line list \<times> result list" where
  "enrich_loop env [] st = st"
| "enrich_loop env (pull # pulls) (out, results) =
     enrich_loop env pulls (out @ fst (enrich env pull), results @ [snd (enrich env pull)])"

section \<open>Filter, percentiles and report\<close>

text \<open>
  \<^verbatim>\<open>toLowerCase\<close> on the code units: the capital letters A to Z become small, and every
  other code unit is left alone. (The case mapping of the characters outside ASCII is not
  modelled; it yields none of the letters of the prefix the script tests for.)
\<close>

definition toLowerCase_unit :: "nat \<Rightarrow> nat" where
  "toLowerCase_unit c = (if 65 \<le> c \<and> c \<le> 90 then c + 32 else c)"

definition toLowerCase :: "js_string \<Rightarrow> js_string" where
  "toLowerCase s = map toLowerCase_unit s"

definition startsWith :: "js_string \<Rightarrow> js_string \<Rightarrow> bool" where
  "startsWith s p = (take (length p) s = p)"

text \<open>The label that excludes a pull request, as the code units of the literal in the
  source.\<close>

definition excluded_label :: js_string where
  "excluded_label = [0x6848, 0x4EF6]"

text \<open>The callback of \<^verbatim>\<open>results.filter\<close>: a record is kept when the callback returns
  a truthy value, and a string is truthy when it is not empty.\<close>

definition keep :: "result \<Rightarrow> bool" where
  "keep result =
     (if startsWith (toLowerCase (result_title result)) (ascii ''release'') then False
      else if excluded_label \<in> set (result_labels result) then False
      else result_approvedDateTime result \<noteq> [])"

text \<open>
  Modelled from the spec: \<^verbatim>\<open>quantileSeq\<close> is imported from the mathjs package, which is
  not among the sources. By the spec a percentile is the value below which the given
  share of the sorted sequence falls, computed by linear interpolation between order
  statistics: with \<open>n\<close> values and probability \<open>p\<close> the position is \<open>p * (n - 1)\<close> in the
  sorted sequence, and a position between two values takes their weighted mean. There is
  no percentile of an empty sequence or for a probability outside of 0 to 1 (\<open>None\<close>:
  the call fails), and a sequence with an invalid number has the invalid number as its
  percentile.
\<close>

fun the_rats :: "jsnum list \<Rightarrow> rat list option" where
  "the_rats [] = Some []"
| "the_rats (NaN # xs) = None"
| "the_rats (Fin x # xs) = map_option ((#) x) (the_rats xs)"

definition interpolate :: "rat list \<Rightarrow> rat \<Rightarrow> rat" where
  "interpolate ys idx =
     (let i = nat \<lfloor>idx\<rfloor>; f = idx - of_int \<lfloor>idx\<rfloor>
      in if f = 0 then ys ! i else ys ! i * (1 - f) + ys ! (i + 1) * f)"

definition quantileSeq :: "jsnum list \<Rightarrow> rat \<Rightarrow> jsnum option" where
  "quantileSeq xs p =
     (if xs = [] \<or> p < 0 \<or> 1 < p then None
      else case the_rats xs of
             None \<Rightarrow> Some NaN
           | Some rs \<Rightarrow> Some (Fin (interpolate (sort rs) (p * of_nat (length rs - 1)))))"

text \<open>The two formatted percentiles of a block of the report.\<close>

definition percentiles :: "jsnum list \<Rightarrow> (js_string \<times> js_string) option" where
  "percentiles xs =
     (case quantileSeq xs (5 / 10) of
        None \<Rightarrow> None
      | Some p50 \<Rightarrow>
          (case quantileSeq xs (9 / 10) of
             None \<Rightarrow> None
           | Some p90 \<Rightarrow> Some (minToTimeString p50, minToTimeString p90)))"

text \<open>
  The end of \<^verbatim>\<open>main\<close>, from the filter on: the lines it prints, or \<open>None\<close> when a
  percentile call fails. The header stands for the line made of the repository name, the
  configured date range and the number of records that are left.
\<close>

definition report :: "env \<Rightarrow> result list \<Rightarrow> console_line list option" where
  "report env results0 =
     (let results = filter keep results0;
          firstCommentLeadTimes = map result_firstCommentLeadTime results;
          approvedLeadTimes = map result_approvedLeadTime results;
          header = [Header (REPO env) (RANGE_OF_DATE env) (length results)];
          first_block =
            (if firstCommentLeadTimes \<noteq> []
             then map_option (\<lambda>(p50, p90). [FirstCommentSummary p50 p90])
                    (percentiles firstCommentLeadTimes)
             else Some []);
          approved_block =
            (if approvedLeadTimes \<noteq> []
             then map_option (\<lambda>(p50, p90). [ApprovedSummary p50 p90])
                    (percentiles approvedLeadTimes)
             else Some []);
          no_results =
            (if firstCommentLeadTimes = [] \<and> approvedLeadTimes = [] then [NoResults] else [])
      in case first_block of
           None \<Rightarrow> None
         | Some b1 \<Rightarrow>
             (case approved_block of
                None \<Rightarrow> None
              | Some b2 \<Rightarrow> Some (header @ b1 @ b2 @ no_results)))"

text \<open>The whole run on the pages of the search, in the order of the platform.\<close>

definition main :: "env \<Rightarrow> pull list list \<Rightarrow> console_line list option" where
  "main env pages =
     (let pulls = foldl (\<lambda>pulls data. pulls @ data) [] pages;
          (out, results) = enrich_loop env pulls ([], [])
      in map_option (\<lambda>summary. out @ summary) (report env results))"

section \<open>Notions of the specification\<close>

text \<open>A title starts with a prefix of small letters without regard to case: code unit
  by code unit, it has the letter of the prefix or its capital.\<close>

definition same_letter :: "nat \<Rightarrow> nat \<Rightarrow> bool" where
  "same_letter c l = (c = l \<or> c + 32 = l)"

fun starts_with_ci :: "js_string \<Rightarrow> js_string \<Rightarrow> bool" where
  "starts_with_ci s [] = True"
| "starts_with_ci [] (l # ls) = False"
| "starts_with_ci (c # cs) (l # ls) = (same_letter c l \<and> starts_with_ci cs ls)"







text \<open>The first response as the specification words it: the minimum of the timestamps
  of the comments and of the formal reviews by someone other than the author, and no
  timestamp when there is none.\<close>

definition response_times ::
  "js_string option \<Rightarrow> review_comment list \<Rightarrow> review list \<Rightarrow> int list" where
  "response_times user comments reviews =
     List.map_filter comment_created_at
       (filter (\<lambda>comment. comment_user comment \<noteq> user) comments) @
     List.map_filter review_submitted_at
       (filter (\<lambda>review. review_user review \<noteq> user) reviews)"

definition first_response_spec ::
  "js_string option \<Rightarrow> review_comment list \<Rightarrow> review list \<Rightarrow> jsnum option" where
  "first_response_spec user comments reviews =
     (let ts = response_times user comments reviews
      in if ts = [] then None else Some (Fin (of_int (Min (set ts)))))"

text \<open>Every comment and every formal review by someone other than the author carries its
  timestamp.\<close>

definition responses_stamped ::
  "js_string option \<Rightarrow> review_comment list \<Rightarrow> review list \<Rightarrow> bool" where
  "responses_stamped user comments reviews =
     (list_all (\<lambda>comment. comment_created_at comment \<noteq> None)
        (filter (\<lambda>comment. comment_user comment \<noteq> user) comments) \<and>
      list_all (\<lambda>review. review_submitted_at review \<noteq> None)
        (filter (\<lambda>review. review_user review \<noteq> user) reviews))"

text \<open>The records the specification has the filter drop: the title starts with the
  release prefix without regard to case, or the labels include the excluded label, or
  there is no formatted approval timestamp.\<close>

definition dropped_spec :: "result \<Rightarrow> bool" where
  "dropped_spec r =
     (starts_with_ci (result_title r) (ascii ''release'') \<or>
      excluded_label \<in> set (result_labels r) \<or>
      result_approvedDateTime r = [])"

text \<open>The first response and the start of the review of a pull request in an
  environment, as the loop body computes them from the answers of the platform.\<close>

definition pull_firstCommentedAt :: "env \<Rightarrow> pull \<Rightarrow> jsnum option" where
  "pull_firstCommentedAt env pull =
     firstCommentedAt_of (pull_user pull)
       (listReviewComments env (pull_number pull)) (listReviews env (pull_number pull))"

definition pull_reviewStartedAt :: "env \<Rightarrow> pull \<Rightarrow> int" where
  "pull_reviewStartedAt env pull =
     reviewStartedAt_of (reviewRequestedAt_of (listEvents env (pull_number pull)))
       (pull_firstCommentedAt env pull) (pull_created_at pull)"

section \<open>Example data\<close>

text \<open>A pull request of the author alice created at a given time, and an environment in
  which the platform answers with given comments, reviews and events. A day has
  86400000 milliseconds.\<close>

definition day :: int where
  "day = 86400000"

definition example_pull :: "nat \<Rightarrow> string \<Rightarrow> int \<Rightarrow> pull" where
  "example_pull n t created =
     \<lparr>pull_number = n, pull_title = ascii t, pull_user = Some (ascii ''alice''),
      pull_labels = [], pull_created_at = created\<rparr>"

definition example_env ::
  "(nat \<Rightarrow> review_comment list) \<Rightarrow> (nat \<Rightarrow> review list) \<Rightarrow> (nat \<Rightarrow> issue_event list) \<Rightarrow> env"
  where
  "example_env comments reviews events =
     \<lparr>REPO = ascii ''repo'', RANGE_OF_DATE = ascii ''2024-01-01..2024-01-31'',
      listReviewComments = comments, listReviews = reviews, listEvents = events,
      format_date = (\<lambda>t. ascii ''date''), format_datetime = (\<lambda>t. ascii ''datetime'')\<rparr>"

definition example_review :: "string \<Rightarrow> string \<Rightarrow> int option \<Rightarrow> review" where
  "example_review login state submitted =
     \<lparr>review_user = Some (ascii login), review_state = ascii state,
      review_submitted_at = submitted\<rparr>"

definition example_comment :: "string \<Rightarrow> int option \<Rightarrow> review_comment" where
  "example_comment login created =
     \<lparr>comment_user = Some (ascii login), comment_created_at = created\<rparr>"

definition example_event :: "string \<Rightarrow> int \<Rightarrow> issue_event" where
  "example_event kind created = \<lparr>event_event = ascii kind, event_created_at = created\<rparr>"

definition example_record :: "string \<Rightarrow> js_string list \<Rightarrow> js_string \<Rightarrow> jsnum \<Rightarrow> result" where
  "example_record t ls approved lead =
     \<lparr>result_title = ascii t, result_labels = ls, result_createdDate = ascii ''date'',
      result_reviewRequestedDate = [], result_firstCommentedAt = None,
      result_firstCommentLeadTime = lead, result_approvedDateTime = approved,
      result_approvedLeadTime = lead\<rparr>"

section \<open>Properties of the time utilities\<close>

text \<open>The equation of \<open>digits\<close> would rewrite for ever; its two cases are used instead.\<close>

declare digits.simps [simp del]

lemma floor_rat_numeral_div [simp]:
  "\<lfloor>numeral a / numeral b :: rat\<rfloor> = numeral a div numeral b"
  using floor_divide_of_int_eq [of "numeral a" "numeral b", where ?'a = rat] by simp

lemma digits_small: "n < 10 \<Longrightarrow> digits n = [48 + n]"
  by (simp add: digits.simps)

lemma digits_large: "\<not> n < 10 \<Longrightarrow> digits n = digits (n div 10) @ [48 + n mod 10]"
  by (subst digits.simps) simp











text \<open>
  Claim C7. For every pair of millisecond timestamps with \<open>from \<le> to\<close>, the lead time is
  \<^verbatim>\<open>round((to - from) / 60000)\<close> minutes: the two divisions by 1000 and by 60 are the
  division by 60000, the rounding is to the nearest integer (a tie upwards), and the
  result is not negative.
\<close>

theorem getLeadTimeMinutes_rounded:
  "from \<le> to \<Longrightarrow>
     getLeadTimeMinutes (Fin from) (Fin to) = round_num (Fin ((to - from) / 60000)) \<and>
     getLeadTimeMinutes (Fin from) (Fin to) = Fin (of_int (round ((to - from) / 60000))) \<and>
     0 \<le> round ((to - from) / 60000)"
proof -
  assume le: "from \<le> to"
  let ?q = "(to - from) / 60000"
  have quotient: "num_div (num_div (num_sub (Fin to) (Fin from)) 1000) 60 = Fin ?q"
    by simp
  have nonneg: "0 \<le> ?q"
    using le by simp
  then have up: "round_num (Fin ?q) = Fin (of_int (round ?q))"
    by (simp add: round_def)
  have "0 \<le> round ?q"
    using nonneg by (simp add: round_def)
  with up show ?thesis
    unfolding getLeadTimeMinutes_def quotient by simp
qed

text \<open>The theorem at 90 seconds, which round up to 2 minutes, and at a millisecond less,
  which rounds down to 1.\<close>

theorem getLeadTimeMinutes_rounded_witness:
  "(1000 :: rat) \<le> 91000 \<and> getLeadTimeMinutes (Fin 1000) (Fin 91000) = Fin 2 \<and>
   getLeadTimeMinutes (Fin 0) (Fin 89999) = Fin 1"
  using getLeadTimeMinutes_rounded [of 1000 91000] getLeadTimeMinutes_rounded [of 0 89999]
  by (simp add: round_def)



section \<open>Properties of the filter\<close>

lemma toLowerCase_unit_letter:
  "97 \<le> l \<Longrightarrow> l \<le> 122 \<Longrightarrow> (toLowerCase_unit c = l) = same_letter c l"
  by (auto simp: toLowerCase_unit_def same_letter_def)

lemma startsWith_simps:
  "startsWith s [] = True"
  "startsWith [] (l # ls) = False"
  "startsWith (c # cs) (l # ls) = (c = l \<and> startsWith cs ls)"
  by (simp_all add: startsWith_def)

lemma startsWith_toLowerCase:
  "list_all (\<lambda>l. 97 \<le> l \<and> l \<le> 122) p \<Longrightarrow>
     startsWith (toLowerCase s) p = starts_with_ci s p"
proof (induction s p rule: starts_with_ci.induct)
  case (1 s)
  show ?case by (simp add: startsWith_simps)
next
  case (2 l ls)
  show ?case by (simp add: startsWith_simps toLowerCase_def)
next
  case (3 c cs l ls)
  then have "startsWith (toLowerCase cs) ls = starts_with_ci cs ls" by simp
  moreover have "(toLowerCase_unit c = l) = same_letter c l"
    using 3(2) by (simp add: toLowerCase_unit_letter)
  ultimately show ?case
    using startsWith_simps(3) [of "toLowerCase_unit c" "toLowerCase cs" l ls]
    by (simp add: toLowerCase_def)
qed

lemma release_small_letters: "list_all (\<lambda>l. 97 \<le> l \<and> l \<le> 122) (ascii ''release'')"
  by (simp add: ascii_def)

lemma keep_dropped_spec: "keep r = (\<not> dropped_spec r)"
  by (simp add: keep_def dropped_spec_def startsWith_toLowerCase [OF release_small_letters])

lemma release_1_2: "starts_with_ci (ascii ''Release 1.2'') (ascii ''release'')"
  by (simp add: ascii_def same_letter_def)

text \<open>
  Claim C2. The filter drops a record exactly when its title starts with the release
  prefix without regard to case, or its labels include the excluded label, or its
  formatted approval timestamp is empty; every other record is kept. A record with the
  title "Release 1.2" is dropped whatever its other fields are.
\<close>

theorem filter_drops:
  "filter keep rs = filter (\<lambda>r. \<not> dropped_spec r) rs \<and>
   (keep r \<longleftrightarrow>
      \<not> (starts_with_ci (result_title r) (ascii ''release'') \<or>
         excluded_label \<in> set (result_labels r) \<or>
         result_approvedDateTime r = [])) \<and>
   (result_title r = ascii ''Release 1.2'' \<longrightarrow> \<not> keep r)"
proof -
  have "filter keep rs = filter (\<lambda>r. \<not> dropped_spec r) rs"
    by (rule filter_cong) (simp_all add: keep_dropped_spec)
  moreover have "keep r \<longleftrightarrow>
      \<not> (starts_with_ci (result_title r) (ascii ''release'') \<or>
         excluded_label \<in> set (result_labels r) \<or>
         result_approvedDateTime r = [])"
    using keep_dropped_spec [of r] by (simp add: dropped_spec_def)
  moreover have "result_title r = ascii ''Release 1.2'' \<longrightarrow> \<not> keep r"
    using release_1_2 by (simp add: keep_dropped_spec dropped_spec_def)
  ultimately show ?thesis by blast
qed

text \<open>The theorem on a release, on a record with the excluded label, on a record without
  approval timestamp and on a record that is kept.\<close>

theorem filter_drops_witness:
  "\<not> keep (example_record ''Release 1.2'' [] (ascii ''24/01/05'') (Fin 10)) \<and>
   \<not> keep (example_record ''Fix bug'' [excluded_label] (ascii ''24/01/05'') (Fin 10)) \<and>
   \<not> keep (example_record ''Fix bug'' [] [] (Fin 10)) \<and>
   keep (example_record ''Fix bug'' [ascii ''bug''] (ascii ''24/01/05'') (Fin 10)) \<and>
   filter keep
     [example_record ''Release 1.2'' [] (ascii ''24/01/05'') (Fin 10),
      example_record ''Fix bug'' [ascii ''bug''] (ascii ''24/01/05'') (Fin 10)] =
     [example_record ''Fix bug'' [ascii ''bug''] (ascii ''24/01/05'') (Fin 10)]"
proof -
  let ?a = "example_record ''Release 1.2'' [] (ascii ''24/01/05'') (Fin 10)"
  let ?b = "example_record ''Fix bug'' [ascii ''bug''] (ascii ''24/01/05'') (Fin 10)"
  have a: "result_title ?a = ascii ''Release 1.2''"
    by (simp add: example_record_def)
  have na: "\<not> keep ?a"
    using filter_drops [of "[]" ?a] a by blast
  have nl: "\<not> keep (example_record ''Fix bug'' [excluded_label] (ascii ''24/01/05'') (Fin 10))"
    using filter_drops [of "[]" "example_record ''Fix bug'' [excluded_label] (ascii ''24/01/05'') (Fin 10)"]
    by (simp add: example_record_def)
  have ne: "\<not> keep (example_record ''Fix bug'' [] [] (Fin 10))"
    using filter_drops [of "[]" "example_record ''Fix bug'' [] [] (Fin 10)"]
    by (simp add: example_record_def)
  have kb: "keep ?b"
    using filter_drops [of "[]" ?b]
    by (simp add: example_record_def ascii_def excluded_label_def same_letter_def)
  from na nl ne kb show ?thesis by simp
qed

section \<open>Properties of the enrichment\<close>

text \<open>The parts of what the loop body returns.\<close>

lemma enrich_fst:
  "fst (enrich env pull) =
     (if num_gt (result_firstCommentLeadTime (snd (enrich env pull))) (Fin 2880)
      then [Flagged (pull_title pull) (pull_user pull)
              (minToTimeString (result_approvedLeadTime (snd (enrich env pull))))]
      else [])"
  by (simp add: enrich_def Let_def)

lemma enrich_firstCommentedAt:
  "result_firstCommentedAt (snd (enrich env pull)) = pull_firstCommentedAt env pull"
  by (simp add: enrich_def Let_def pull_firstCommentedAt_def)

lemma enrich_firstCommentLeadTime:
  "result_firstCommentLeadTime (snd (enrich env pull)) =
     firstCommentLeadTime_of (pull_reviewStartedAt env pull) (pull_firstCommentedAt env pull)"
  by (simp add: enrich_def Let_def pull_firstCommentedAt_def pull_reviewStartedAt_def)

lemma enrich_approvedLeadTime:
  "result_approvedLeadTime (snd (enrich env pull)) =
     approvedLeadTime_of (pull_reviewStartedAt env pull)
       (approvedAt_of (listReviews env (pull_number pull)))"
  by (simp add: enrich_def Let_def pull_firstCommentedAt_def pull_reviewStartedAt_def)

lemma num_lt_getTime:
  "num_lt (Date_parse t) (getTime first) = (\<exists>c. first = Some (Fin c) \<and> of_int t < c)"
proof (cases first)
  case None
  then show ?thesis by (simp add: getTime_def Date_parse_def)
next
  case (Some d)
  then show ?thesis by (cases d) (simp_all add: getTime_def Date_parse_def)
qed

lemma find_None_list_ex: "(find P xs = None) = (\<not> list_ex P xs)"
  by (auto simp: find_None_iff list_ex_iff)

lemma getLeadTimeMinutes_parsed:
  "getLeadTimeMinutes (Date_parse s) (Date_parse t) =
     round_num (Fin ((of_int t - of_int s) / 60000))"
  by (simp add: getLeadTimeMinutes_def Date_parse_def)

lemmas example_defs =
  example_env_def example_pull_def example_review_def example_comment_def
  example_event_def day_def

lemmas enrich_defs =
  pull_reviewStartedAt_def pull_firstCommentedAt_def reviewRequestedAt_of_def
  firstCommentedAt_of_def reviewStartedAt_of_def approvedAt_of_def
  firstCommentLeadTime_of_def approvedLeadTime_of_def Date_of_def Date_parse_def getTime_def
  getLeadTimeMinutes_def

text \<open>
  Claim C1. For every pull request, the start of the review is the timestamp of the
  review-request event (the first one of the timeline) when there is such an event and
  its timestamp is strictly earlier than the first response of someone other than the
  author, and it is the creation timestamp of the pull request otherwise. So, unless the
  two candidate timestamps coincide, it equals the timestamp of the request if and only
  if the request exists and is strictly earlier.
\<close>

theorem reviewStartedAt_selection:
  "(\<forall>e. find (\<lambda>event. event_event event = ascii ''review_requested'')
          (listEvents env (pull_number pull)) = Some e \<and>
        (\<exists>c. pull_firstCommentedAt env pull = Some (Fin c) \<and> of_int (event_created_at e) < c)
        \<longrightarrow> pull_reviewStartedAt env pull = event_created_at e) \<and>
   (\<forall>e. find (\<lambda>event. event_event event = ascii ''review_requested'')
          (listEvents env (pull_number pull)) = Some e \<and>
        \<not> (\<exists>c. pull_firstCommentedAt env pull = Some (Fin c) \<and> of_int (event_created_at e) < c)
        \<longrightarrow> pull_reviewStartedAt env pull = pull_created_at pull) \<and>
   (\<not> list_ex (\<lambda>event. event_event event = ascii ''review_requested'')
          (listEvents env (pull_number pull))
        \<longrightarrow> pull_reviewStartedAt env pull = pull_created_at pull) \<and>
   (\<forall>e. find (\<lambda>event. event_event event = ascii ''review_requested'')
          (listEvents env (pull_number pull)) = Some e \<and>
        event_created_at e \<noteq> pull_created_at pull
        \<longrightarrow> (pull_reviewStartedAt env pull = event_created_at e \<longleftrightarrow>
             (\<exists>c. pull_firstCommentedAt env pull = Some (Fin c) \<and>
                  of_int (event_created_at e) < c)))"
proof -
  let ?found = "find (\<lambda>event. event_event event = ascii ''review_requested'')
    (listEvents env (pull_number pull))"
  have none: "pull_reviewStartedAt env pull = pull_created_at pull" if "?found = None"
    using that by (simp add: pull_reviewStartedAt_def reviewStartedAt_of_def
        reviewRequestedAt_of_def)
  have some: "pull_reviewStartedAt env pull =
      (if \<exists>c. pull_firstCommentedAt env pull = Some (Fin c) \<and> of_int (event_created_at e) < c
       then event_created_at e else pull_created_at pull)" if "?found = Some e" for e
    using that by (simp add: pull_reviewStartedAt_def reviewStartedAt_of_def
        reviewRequestedAt_of_def num_lt_getTime)
  show ?thesis
    using none some by (auto simp: find_None_list_ex [symmetric])
qed

text \<open>The two examples of the specification, with the creation at time 0 and the first
  response on day 3: a request on day 1 starts the review, a request on day 5 does not.\<close>

theorem reviewStartedAt_selection_witness:
  "pull_reviewStartedAt
     (example_env (\<lambda>n. []) (\<lambda>n. [example_review ''bob'' ''COMMENTED'' (Some (3 * day))])
        (\<lambda>n. [example_event ''labeled'' 0, example_event ''review_requested'' (1 * day)]))
     (example_pull 7 ''Add feature'' 0) = 1 * day \<and>
   pull_reviewStartedAt
     (example_env (\<lambda>n. []) (\<lambda>n. [example_review ''bob'' ''COMMENTED'' (Some (3 * day))])
        (\<lambda>n. [example_event ''labeled'' 0, example_event ''review_requested'' (5 * day)]))
     (example_pull 7 ''Add feature'' 0) = 0"
proof -
  let ?reviews = "\<lambda>n::nat. [example_review ''bob'' ''COMMENTED'' (Some (3 * day))]"
  let ?ev1 = "\<lambda>n::nat. [example_event ''labeled'' 0, example_event ''review_requested'' (1 * day)]"
  let ?ev5 = "\<lambda>n::nat. [example_event ''labeled'' 0, example_event ''review_requested'' (5 * day)]"
  let ?pull = "example_pull 7 ''Add feature'' 0"
  have first: "pull_firstCommentedAt (example_env (\<lambda>n. []) ?reviews ev) ?pull =
      Some (Fin (of_int (3 * day)))" for ev
    by (simp add: example_defs enrich_defs ascii_def)
  have f1: "find (\<lambda>event. event_event event = ascii ''review_requested'')
      (listEvents (example_env (\<lambda>n. []) ?reviews ?ev1) (pull_number ?pull)) =
      Some (example_event ''review_requested'' (1 * day))"
    by (simp add: example_defs ascii_def)
  have f5: "find (\<lambda>event. event_event event = ascii ''review_requested'')
      (listEvents (example_env (\<lambda>n. []) ?reviews ?ev5) (pull_number ?pull)) =
      Some (example_event ''review_requested'' (5 * day))"
    by (simp add: example_defs ascii_def)
  have a1: "\<exists>c. pull_firstCommentedAt (example_env (\<lambda>n. []) ?reviews ?ev1) ?pull = Some (Fin c) \<and>
      of_int (event_created_at (example_event ''review_requested'' (1 * day))) < c"
    unfolding first by (simp add: example_defs)
  have a5: "\<not> (\<exists>c. pull_firstCommentedAt (example_env (\<lambda>n. []) ?reviews ?ev5) ?pull = Some (Fin c) \<and>
      of_int (event_created_at (example_event ''review_requested'' (5 * day))) < c)"
    unfolding first by (simp add: example_defs)
  have "pull_reviewStartedAt (example_env (\<lambda>n. []) ?reviews ?ev1) ?pull =
      event_created_at (example_event ''review_requested'' (1 * day))"
    using reviewStartedAt_selection [of "example_env (\<lambda>n. []) ?reviews ?ev1" ?pull] f1 a1
    by blast
  moreover have "pull_reviewStartedAt (example_env (\<lambda>n. []) ?reviews ?ev5) ?pull =
      pull_created_at ?pull"
    using reviewStartedAt_selection [of "example_env (\<lambda>n. []) ?reviews ?ev5" ?pull] f5 a5
    by blast
  ultimately show ?thesis
    by (simp add: example_defs)
qed

lemma round_num_not_NaN: "round_num (Fin x) \<noteq> NaN"
  by simp

lemma approvedLeadTime_of_NaN:
  "(approvedLeadTime_of start approvedAt = NaN) = (approvedAt = None)"
  by (cases approvedAt)
    (simp_all add: approvedLeadTime_of_def getLeadTimeMinutes_parsed del: round_num.simps
      add: round_num_not_NaN)

text \<open>
  Claim C4, as amended. The approved lead time is the invalid number exactly when there
  is no formal review with the state APPROVED or the first such review, in the order of
  the platform, carries no submitted timestamp (the script tests the timestamp, not the
  review). When that review carries one, the approved lead time is the rounded number of
  minutes from the start of the review to it.
\<close>

theorem approvedLeadTime_sentinel:
  "(result_approvedLeadTime (snd (enrich env pull)) = NaN \<longleftrightarrow>
      \<not> list_ex (\<lambda>review. review_state review = ascii ''APPROVED'')
           (listReviews env (pull_number pull)) \<or>
      (\<exists>review. find (\<lambda>review. review_state review = ascii ''APPROVED'')
           (listReviews env (pull_number pull)) = Some review \<and>
         review_submitted_at review = None)) \<and>
   (\<forall>review t. find (\<lambda>review. review_state review = ascii ''APPROVED'')
           (listReviews env (pull_number pull)) = Some review \<and>
         review_submitted_at review = Some t
      \<longrightarrow> result_approvedLeadTime (snd (enrich env pull)) =
            getLeadTimeMinutes (Date_parse (pull_reviewStartedAt env pull)) (Date_parse t) \<and>
          result_approvedLeadTime (snd (enrich env pull)) =
            round_num (Fin ((of_int t - of_int (pull_reviewStartedAt env pull)) / 60000)))"
proof -
  let ?found = "find (\<lambda>review. review_state review = ascii ''APPROVED'')
    (listReviews env (pull_number pull))"
  have nan: "(result_approvedLeadTime (snd (enrich env pull)) = NaN) =
      (approvedAt_of (listReviews env (pull_number pull)) = None)"
    by (simp add: enrich_approvedLeadTime approvedLeadTime_of_NaN)
  have at: "(approvedAt_of (listReviews env (pull_number pull)) = None) =
      (?found = None \<or> (\<exists>review. ?found = Some review \<and> review_submitted_at review = None))"
    by (cases ?found) (simp_all add: approvedAt_of_def)
  have lead: "result_approvedLeadTime (snd (enrich env pull)) =
      getLeadTimeMinutes (Date_parse (pull_reviewStartedAt env pull)) (Date_parse t)"
    if "?found = Some review" "review_submitted_at review = Some t" for review t
    using that by (simp add: enrich_approvedLeadTime approvedLeadTime_of_def approvedAt_of_def)
  show ?thesis
    using nan at lead
    by (auto simp: find_None_list_ex [symmetric] getLeadTimeMinutes_parsed
        simp del: round_num.simps)
qed

text \<open>Three reviews: a comment, an approval on day 2 and an approval on day 1 that the
  platform returns later. The first approval in the returned order counts: 2880 minutes
  from the creation at time 0.\<close>

theorem approvedLeadTime_sentinel_witness:
  "result_approvedLeadTime
     (snd (enrich
        (example_env (\<lambda>n. [])
           (\<lambda>n. [example_review ''bob'' ''COMMENTED'' (Some (1 * day)),
                 example_review ''carol'' ''APPROVED'' (Some (2 * day)),
                 example_review ''dave'' ''APPROVED'' (Some (1 * day))])
           (\<lambda>n. []))
        (example_pull 7 ''Add feature'' 0))) = Fin 2880"
proof -
  let ?env = "example_env (\<lambda>n. [])
           (\<lambda>n. [example_review ''bob'' ''COMMENTED'' (Some (1 * day)),
                 example_review ''carol'' ''APPROVED'' (Some (2 * day)),
                 example_review ''dave'' ''APPROVED'' (Some (1 * day))])
           (\<lambda>n. [])"
  let ?pull = "example_pull 7 ''Add feature'' 0"
  have f: "find (\<lambda>review. review_state review = ascii ''APPROVED'')
      (listReviews ?env (pull_number ?pull)) =
      Some (example_review ''carol'' ''APPROVED'' (Some (2 * day)))"
    by (simp add: example_defs ascii_def)
  have s: "review_submitted_at (example_review ''carol'' ''APPROVED'' (Some (2 * day))) =
      Some (2 * day)"
    by (simp add: example_defs)
  have start: "pull_reviewStartedAt ?env ?pull = 0"
    by (simp add: example_defs enrich_defs)
  have "result_approvedLeadTime (snd (enrich ?env ?pull)) =
      round_num (Fin ((of_int (2 * day) - of_int (pull_reviewStartedAt ?env ?pull)) / 60000))"
    using approvedLeadTime_sentinel [of ?env ?pull] f s by blast
  then show ?thesis
    unfolding start by (simp add: day_def)
qed

text \<open>The claim as it was stated (the invalid number exactly when no review with the
  state APPROVED exists) fails for an approving review without submitted timestamp.\<close>

theorem approvedLeadTime_sentinel_counterexample:
  "\<not> (result_approvedLeadTime
        (snd (enrich
           (example_env (\<lambda>n. []) (\<lambda>n. [example_review ''bob'' ''APPROVED'' None]) (\<lambda>n. []))
           (example_pull 7 ''Add feature'' 0))) = NaN \<longleftrightarrow>
      \<not> list_ex (\<lambda>review. review_state review = ascii ''APPROVED'')
           (listReviews
              (example_env (\<lambda>n. []) (\<lambda>n. [example_review ''bob'' ''APPROVED'' None]) (\<lambda>n. []))
              (pull_number (example_pull 7 ''Add feature'' 0))))"
  by (simp add: enrich_approvedLeadTime approvedLeadTime_of_def approvedAt_of_def example_defs)

text \<open>
  Claim C10. A pull request without any review comment and without any formal review by
  someone other than its author is never printed as slow: its first response is
  undefined, its first-comment lead time is the invalid number, and the invalid number
  is not greater than 2880.
\<close>

theorem no_response_not_flagged:
  "filter (\<lambda>comment. comment_user comment \<noteq> pull_user pull)
       (listReviewComments env (pull_number pull)) = [] \<Longrightarrow>
   filter (\<lambda>review. review_user review \<noteq> pull_user pull)
       (listReviews env (pull_number pull)) = [] \<Longrightarrow>
   result_firstCommentedAt (snd (enrich env pull)) = None \<and>
   result_firstCommentLeadTime (snd (enrich env pull)) = NaN \<and>
   \<not> num_gt (result_firstCommentLeadTime (snd (enrich env pull))) (Fin (60 * 24 * 2)) \<and>
   fst (enrich env pull) = []"
proof -
  assume c: "filter (\<lambda>comment. comment_user comment \<noteq> pull_user pull)
       (listReviewComments env (pull_number pull)) = []"
    and r: "filter (\<lambda>review. review_user review \<noteq> pull_user pull)
       (listReviews env (pull_number pull)) = []"
  have first: "pull_firstCommentedAt env pull = None"
    by (simp add: pull_firstCommentedAt_def firstCommentedAt_of_def c r)
  then have lead: "result_firstCommentLeadTime (snd (enrich env pull)) = NaN"
    by (simp add: enrich_firstCommentLeadTime firstCommentLeadTime_of_def getTime_def
        getLeadTimeMinutes_def Date_parse_def)
  show ?thesis
    using first lead enrich_fst [of env pull] by (simp add: enrich_firstCommentedAt)
qed

text \<open>A pull request of alice on which only alice commented and reviewed, long after its
  creation.\<close>

theorem no_response_not_flagged_witness:
  "fst (enrich
     (example_env (\<lambda>n. [example_comment ''alice'' (Some (9 * day))])
        (\<lambda>n. [example_review ''alice'' ''COMMENTED'' (Some (9 * day))]) (\<lambda>n. []))
     (example_pull 7 ''Add feature'' 0)) = [] \<and>
   result_firstCommentLeadTime (snd (enrich
     (example_env (\<lambda>n. [example_comment ''alice'' (Some (9 * day))])
        (\<lambda>n. [example_review ''alice'' ''COMMENTED'' (Some (9 * day))]) (\<lambda>n. []))
     (example_pull 7 ''Add feature'' 0))) = NaN"
proof -
  let ?env = "example_env (\<lambda>n. [example_comment ''alice'' (Some (9 * day))])
        (\<lambda>n. [example_review ''alice'' ''COMMENTED'' (Some (9 * day))]) (\<lambda>n. [])"
  let ?pull = "example_pull 7 ''Add feature'' 0"
  have c: "filter (\<lambda>comment. comment_user comment \<noteq> pull_user ?pull)
       (listReviewComments ?env (pull_number ?pull)) = []"
    by (simp add: example_defs)
  have r: "filter (\<lambda>review. review_user review \<noteq> pull_user ?pull)
       (listReviews ?env (pull_number ?pull)) = []"
    by (simp add: example_defs)
  from no_response_not_flagged [OF c r] show ?thesis
    by simp
qed

section \<open>Properties of the loop over the pull requests\<close>

lemma enrich_loop_acc:
  "enrich_loop env pulls (out, results) =
     (out @ concat (map (\<lambda>pull. fst (enrich env pull)) pulls),
      results @ map (\<lambda>pull. snd (enrich env pull)) pulls)"
  by (induction pulls arbitrary: out results) simp_all

lemma concat_flagged:
  "concat (map (\<lambda>x. if P x then [f x] else []) xs) = map f (filter P xs)"
  by (induction xs) simp_all

text \<open>
  Claim C3. During the enrichment, the line of a slow pull request (its title, its
  author and the formatted approval lead time) is printed for a pull request if and only
  if its first-comment lead time is strictly greater than 2880 minutes: the lines of a
  run are, in order, the lines of exactly those pull requests.
\<close>

theorem flagged_lines:
  "fst (enrich_loop env pulls ([], [])) =
     map (\<lambda>pull. Flagged (pull_title pull) (pull_user pull)
            (minToTimeString (result_approvedLeadTime (snd (enrich env pull)))))
       (filter (\<lambda>pull. num_gt (result_firstCommentLeadTime (snd (enrich env pull))) (Fin 2880))
          pulls) \<and>
   snd (enrich_loop env pulls ([], [])) = map (\<lambda>pull. snd (enrich env pull)) pulls \<and>
   (fst (enrich env pull) \<noteq> [] \<longleftrightarrow>
      num_gt (result_firstCommentLeadTime (snd (enrich env pull))) (Fin 2880)) \<and>
   (num_gt (result_firstCommentLeadTime (snd (enrich env pull))) (Fin 2880) \<longrightarrow>
      fst (enrich env pull) =
        [Flagged (pull_title pull) (pull_user pull)
           (minToTimeString (result_approvedLeadTime (snd (enrich env pull))))])"
proof -
  have "concat (map (\<lambda>pull. fst (enrich env pull)) pulls) =
      map (\<lambda>pull. Flagged (pull_title pull) (pull_user pull)
            (minToTimeString (result_approvedLeadTime (snd (enrich env pull)))))
       (filter (\<lambda>pull. num_gt (result_firstCommentLeadTime (snd (enrich env pull))) (Fin 2880))
          pulls)"
    by (subst enrich_fst) (rule concat_flagged)
  then show ?thesis
    using enrich_fst [of env pull] by (simp add: enrich_loop_acc)
qed

text \<open>Two pull requests of alice, each with one approving review of bob: on the first
  the review comes 4000 minutes after the creation, on the second 100 minutes after it.
  The first one is printed, with 2.8 days, and only it.\<close>

theorem flagged_lines_witness:
  "fst (enrich_loop
         (example_env (\<lambda>n. [])
            (\<lambda>n. [example_review ''bob'' ''APPROVED''
                    (Some (if n = 3 then 240000000 else 6000000))])
            (\<lambda>n. []))
         [example_pull 3 ''Slow'' 0, example_pull 4 ''Quick'' 0] ([], [])) =
     [Flagged (ascii ''Slow'') (Some (ascii ''alice'')) (ascii ''2.8'' @ suffix_days)]"
proof -
  let ?env = "example_env (\<lambda>n. [])
            (\<lambda>n. [example_review ''bob'' ''APPROVED''
                    (Some (if n = 3 then 240000000 else 6000000))])
            (\<lambda>n. [])"
  let ?slow = "example_pull 3 ''Slow'' 0"
  let ?quick = "example_pull 4 ''Quick'' 0"
  have l1: "result_firstCommentLeadTime (snd (enrich ?env ?slow)) = Fin 4000"
    by (simp add: enrich_firstCommentLeadTime example_defs enrich_defs ascii_def)
  have l2: "result_firstCommentLeadTime (snd (enrich ?env ?quick)) = Fin 100"
    by (simp add: enrich_firstCommentLeadTime example_defs enrich_defs ascii_def)
  have a1: "result_approvedLeadTime (snd (enrich ?env ?slow)) = Fin 4000"
    by (simp add: enrich_approvedLeadTime example_defs enrich_defs ascii_def)
  have t: "minToTimeString (Fin 4000) = ascii ''2.8'' @ suffix_days"
    by (simp add: minToTimeString_def Let_def ascii_def digits_small digits_large)
  have slow: "filter (\<lambda>pull. num_gt (result_firstCommentLeadTime (snd (enrich ?env pull)))
      (Fin 2880)) [?slow, ?quick] = [?slow]"
    by (simp only: filter.simps l1 l2 num_gt.simps) simp
  have "fst (enrich_loop ?env [?slow, ?quick] ([], [])) =
      map (\<lambda>pull. Flagged (pull_title pull) (pull_user pull)
            (minToTimeString (result_approvedLeadTime (snd (enrich ?env pull)))))
       (filter (\<lambda>pull. num_gt (result_firstCommentLeadTime (snd (enrich ?env pull)))
          (Fin 2880)) [?slow, ?quick])"
    using flagged_lines [of ?env "[?slow, ?quick]"] by blast
  also have "\<dots> = [Flagged (pull_title ?slow) (pull_user ?slow)
      (minToTimeString (result_approvedLeadTime (snd (enrich ?env ?slow))))]"
    unfolding slow by simp
  also have "\<dots> = [Flagged (ascii ''Slow'') (Some (ascii ''alice''))
      (ascii ''2.8'' @ suffix_days)]"
    unfolding a1 t by (simp add: example_pull_def)
  finally show ?thesis .
qed

section \<open>The first response\<close>

lemma sort_insert_Fin:
  "sort_insert (\<lambda>a b. num_sub a b) (Fin (of_int x)) (map (\<lambda>t. Fin (of_int t)) ys) =
     map (\<lambda>t. Fin (of_int t)) (insort x ys)"
  by (induction ys) auto

lemma sort_js_Fin:
  "sort_js (\<lambda>a b. num_sub a b) (map (\<lambda>t. Fin (of_int t)) ts) =
     map (\<lambda>t. Fin (of_int t)) (sort ts)"
  by (induction ts) (simp_all add: sort_insert_Fin)

lemma stamped_dates:
  "list_all (\<lambda>x. f x \<noteq> None) xs \<Longrightarrow>
     map (\<lambda>x. Date_of (f x)) xs = map (\<lambda>t. Fin (of_int t)) (List.map_filter f xs)"
  by (induction xs) (auto simp: Date_of_def Date_parse_def)

lemma hd_sort_Min:
  fixes ts :: "int list"
  assumes "ts \<noteq> []"
  shows "hd (sort ts) = Min (set ts)"
proof -
  from assms have ne: "sort ts \<noteq> []"
    by (metis length_sort length_0_conv)
  then obtain y ys where eq: "sort ts = y # ys"
    by (cases "sort ts") auto
  have "sorted (y # ys)"
    using sorted_sort [of ts] by (simp add: eq)
  then have le: "\<forall>z \<in> set (y # ys). y \<le> z"
    by auto
  have "set (y # ys) = set ts"
    using set_sort [of "\<lambda>x. x" ts] by (simp add: eq)
  with le have "Min (set ts) = y"
    by (intro Min_eqI) auto
  then show ?thesis
    by (simp add: eq)
qed

lemma firstCommentedAt_stamped:
  assumes "responses_stamped user comments reviews"
  shows "firstCommentedAt_of user comments reviews = first_response_spec user comments reviews"
proof -
  let ?ts = "response_times user comments reviews"
  have dates:
    "map (\<lambda>comment. Date_of (comment_created_at comment))
        (filter (\<lambda>comment. comment_user comment \<noteq> user) comments) @
     map (\<lambda>review. Date_of (review_submitted_at review))
        (filter (\<lambda>review. review_user review \<noteq> user) reviews) =
     map (\<lambda>t. Fin (of_int t)) ?ts"
    using assms by (simp add: responses_stamped_def response_times_def stamped_dates)
  have sorted_dates: "firstCommentedAt_of user comments reviews =
      (case map (\<lambda>t. Fin (of_int t)) (sort ?ts) of [] \<Rightarrow> None | d # _ \<Rightarrow> Some d)"
    unfolding firstCommentedAt_of_def dates sort_js_Fin ..
  show ?thesis
  proof (cases "?ts = []")
    case True
    then show ?thesis
      by (simp add: sorted_dates first_response_spec_def)
  next
    case False
    then have "sort ?ts \<noteq> []"
      by (metis length_sort length_0_conv)
    then obtain y ys where eq: "sort ?ts = y # ys"
      by (cases "sort ?ts") auto
    have "y = Min (set ?ts)"
      using hd_sort_Min [OF False] by (simp add: eq)
    with False show ?thesis
      by (simp add: sorted_dates first_response_spec_def eq)
  qed
qed

text \<open>
  Claim C5, as amended. For every pull request whose comments and formal reviews by
  someone other than its author all carry their timestamp, the first response is the
  minimum of these timestamps, and it is undefined when there is no such comment and no
  such review.
\<close>

theorem firstCommentedAt_minimum:
  "responses_stamped (pull_user pull) (listReviewComments env (pull_number pull))
       (listReviews env (pull_number pull)) \<Longrightarrow>
   result_firstCommentedAt (snd (enrich env pull)) =
     (if response_times (pull_user pull) (listReviewComments env (pull_number pull))
           (listReviews env (pull_number pull)) = []
      then None
      else Some (Fin (of_int (Min (set (response_times (pull_user pull)
             (listReviewComments env (pull_number pull))
             (listReviews env (pull_number pull))))))))"
  by (simp add: enrich_firstCommentedAt pull_firstCommentedAt_def firstCommentedAt_stamped
      first_response_spec_def)

text \<open>A comment of carol on day 4, a comment of the author on day 1, a review of bob on
  day 2 and a review of carol on day 3: the first response is bob's, on day 2.\<close>

theorem firstCommentedAt_minimum_witness:
  "result_firstCommentedAt
     (snd (enrich
        (example_env
           (\<lambda>n. [example_comment ''carol'' (Some (4 * day)),
                 example_comment ''alice'' (Some (1 * day))])
           (\<lambda>n. [example_review ''carol'' ''COMMENTED'' (Some (3 * day)),
                 example_review ''bob'' ''APPROVED'' (Some (2 * day))])
           (\<lambda>n. []))
        (example_pull 7 ''Add feature'' 0))) = Some (Fin (of_int (2 * day)))"
proof -
  let ?env = "example_env
           (\<lambda>n. [example_comment ''carol'' (Some (4 * day)),
                 example_comment ''alice'' (Some (1 * day))])
           (\<lambda>n. [example_review ''carol'' ''COMMENTED'' (Some (3 * day)),
                 example_review ''bob'' ''APPROVED'' (Some (2 * day))])
           (\<lambda>n. [])"
  let ?pull = "example_pull 7 ''Add feature'' 0"
  have st: "responses_stamped (pull_user ?pull) (listReviewComments ?env (pull_number ?pull))
       (listReviews ?env (pull_number ?pull))"
    by (simp add: responses_stamped_def example_defs ascii_def)
  have ts: "response_times (pull_user ?pull) (listReviewComments ?env (pull_number ?pull))
       (listReviews ?env (pull_number ?pull)) = [4 * day, 3 * day, 2 * day]"
    by (simp add: response_times_def example_defs ascii_def)
  show ?thesis
    using firstCommentedAt_minimum [OF st] unfolding ts by (simp add: day_def)
qed

text \<open>The claim as it was stated, for every pull request, fails when a review without
  timestamp (a pending one) comes before a review with a timestamp: the first response is
  the invalid date, not the minimum of the timestamps.\<close>

theorem firstCommentedAt_minimum_counterexample:
  "firstCommentedAt_of (Some (ascii ''alice'')) []
     [example_review ''bob'' ''PENDING'' None,
      example_review ''carol'' ''APPROVED'' (Some 5)] = Some NaN \<and>
   first_response_spec (Some (ascii ''alice'')) []
     [example_review ''bob'' ''PENDING'' None,
      example_review ''carol'' ''APPROVED'' (Some 5)] = Some (Fin 5) \<and>
   firstCommentedAt_of (Some (ascii ''alice'')) []
     [example_review ''bob'' ''PENDING'' None,
      example_review ''carol'' ''APPROVED'' (Some 5)] \<noteq>
   first_response_spec (Some (ascii ''alice'')) []
     [example_review ''bob'' ''PENDING'' None,
      example_review ''carol'' ''APPROVED'' (Some 5)]"
  by (simp add: firstCommentedAt_of_def first_response_spec_def response_times_def
      example_defs ascii_def Date_of_def Date_parse_def)

section \<open>Properties of the report\<close>

lemma foldl_append_pages:
  "foldl (\<lambda>pulls data. pulls @ data) acc pages = acc @ concat pages"
  by (induction pages arbitrary: acc) simp_all

lemma report_empty:
  assumes "filter keep results = []"
  shows "report env results = Some [Header (REPO env) (RANGE_OF_DATE env) 0, NoResults]"
  using assms by (simp add: report_def)

lemma main_unfold:
  "main env pages =
     map_option (\<lambda>summary. fst (enrich_loop env (concat pages) ([], [])) @ summary)
       (report env (map (\<lambda>pull. snd (enrich env pull)) (concat pages)))"
  by (simp add: main_def Let_def foldl_append_pages enrich_loop_acc)

text \<open>
  Claim C9, as amended. For a run in which no pull request survives the filter (both
  lead-time sequences are empty), the final summary consists of the header line, with
  the count 0, followed by the message that there are no results; no percentile line is
  printed.
\<close>

theorem report_no_results:
  "(filter keep results = [] \<longrightarrow>
      report env results = Some [Header (REPO env) (RANGE_OF_DATE env) 0, NoResults]) \<and>
   (filter keep (map (\<lambda>pull. snd (enrich env pull)) (concat pages)) = [] \<longrightarrow>
      main env pages =
        Some (fst (enrich_loop env (concat pages) ([], [])) @
              [Header (REPO env) (RANGE_OF_DATE env) 0, NoResults]))"
proof (intro conjI impI)
  assume "filter keep results = []"
  then show "report env results = Some [Header (REPO env) (RANGE_OF_DATE env) 0, NoResults]"
    by (rule report_empty)
next
  assume "filter keep (map (\<lambda>pull. snd (enrich env pull)) (concat pages)) = []"
  then have "report env (map (\<lambda>pull. snd (enrich env pull)) (concat pages)) =
      Some [Header (REPO env) (RANGE_OF_DATE env) 0, NoResults]"
    by (rule report_empty)
  then show "main env pages =
      Some (fst (enrich_loop env (concat pages) ([], [])) @
            [Header (REPO env) (RANGE_OF_DATE env) 0, NoResults])"
    by (simp add: main_unfold)
qed

text \<open>A run whose search returns one page with one pull request, a release that bob
  approved 100 minutes after its creation: the filter drops it, nothing is printed during
  the enrichment, and the summary is the header and the message.\<close>

theorem report_no_results_witness:
  "main
     (example_env (\<lambda>n. []) (\<lambda>n. [example_review ''bob'' ''APPROVED'' (Some 6000000)])
        (\<lambda>n. []))
     [[example_pull 3 ''Release 1.2'' 0]] =
   Some [Header (ascii ''repo'') (ascii ''2024-01-01..2024-01-31'') 0, NoResults]"
proof -
  let ?env = "example_env (\<lambda>n. [])
    (\<lambda>n. [example_review ''bob'' ''APPROVED'' (Some 6000000)]) (\<lambda>n. [])"
  let ?pull = "example_pull 3 ''Release 1.2'' 0"
  have "result_title (snd (enrich ?env ?pull)) = ascii ''Release 1.2''"
    by (simp add: enrich_def Let_def example_pull_def)
  then have "\<not> keep (snd (enrich ?env ?pull))"
    using release_1_2 by (simp add: keep_dropped_spec dropped_spec_def)
  then have dropped:
    "filter keep (map (\<lambda>pull. snd (enrich ?env pull)) (concat [[?pull]])) = []"
    by simp
  have l: "result_firstCommentLeadTime (snd (enrich ?env ?pull)) = Fin 100"
    by (simp add: enrich_firstCommentLeadTime example_defs enrich_defs ascii_def)
  have quiet: "fst (enrich_loop ?env (concat [[?pull]]) ([], [])) = []"
    by (simp add: enrich_loop_acc enrich_fst l)
  have "main ?env [[?pull]] =
      Some (fst (enrich_loop ?env (concat [[?pull]]) ([], [])) @
            [Header (REPO ?env) (RANGE_OF_DATE ?env) 0, NoResults])"
    using report_no_results [of "[]" ?env "[[?pull]]"] dropped by blast
  then show ?thesis
    unfolding quiet by (simp add: example_env_def)
qed

text \<open>The claim as it was stated (the final output is exactly the message) fails already
  for a run without any pull request: the header is printed before the message.\<close>

theorem report_no_results_counterexample:
  "main (example_env (\<lambda>n. []) (\<lambda>n. []) (\<lambda>n. [])) [] =
     Some [Header (ascii ''repo'') (ascii ''2024-01-01..2024-01-31'') 0, NoResults] \<and>
   main (example_env (\<lambda>n. []) (\<lambda>n. []) (\<lambda>n. [])) [] \<noteq> Some [NoResults]"
  by (simp add: main_def report_def example_env_def)

text \<open>
  Claim C8. The percentiles of the report are linear interpolations between order
  statistics: for the sequence 10, 20, 30, 40 the 50th percentile is exactly 25 and the
  90th percentile is exactly 37, in whatever order the values come, and the report prints
  them as 25 and 37 minutes.
\<close>

theorem percentile_interpolation:
  "quantileSeq [Fin 10, Fin 20, Fin 30, Fin 40] (5 / 10) = Some (Fin 25) \<and>
   quantileSeq [Fin 10, Fin 20, Fin 30, Fin 40] (9 / 10) = Some (Fin 37) \<and>
   quantileSeq [Fin 40, Fin 10, Fin 30, Fin 20] (9 / 10) = Some (Fin 37) \<and>
   report env
     [example_record ''D'' [] (ascii ''24/01/05'') (Fin 40),
      example_record ''A'' [] (ascii ''24/01/05'') (Fin 10),
      example_record ''C'' [] (ascii ''24/01/05'') (Fin 30),
      example_record ''B'' [] (ascii ''24/01/05'') (Fin 20)] =
     Some [Header (REPO env) (RANGE_OF_DATE env) 4,
           FirstCommentSummary (ascii ''25'' @ suffix_minutes) (ascii ''37'' @ suffix_minutes),
           ApprovedSummary (ascii ''25'' @ suffix_minutes) (ascii ''37'' @ suffix_minutes)]"
proof -
  have q50: "quantileSeq [Fin 10, Fin 20, Fin 30, Fin 40] (5 / 10) = Some (Fin 25)"
    by (simp add: quantileSeq_def interpolate_def Let_def)
  have q90: "quantileSeq [Fin 10, Fin 20, Fin 30, Fin 40] (9 / 10) = Some (Fin 37)"
    by (simp add: quantileSeq_def interpolate_def Let_def)
  have p50: "quantileSeq [Fin 40, Fin 10, Fin 30, Fin 20] (5 / 10) = Some (Fin 25)"
    by (simp add: quantileSeq_def interpolate_def Let_def)
  have p90: "quantileSeq [Fin 40, Fin 10, Fin 30, Fin 20] (9 / 10) = Some (Fin 37)"
    by (simp add: quantileSeq_def interpolate_def Let_def)
  have m25: "minToTimeString (Fin 25) = ascii ''25'' @ suffix_minutes"
    by (simp add: minToTimeString_def ascii_def digits_small digits_large)
  have m37: "minToTimeString (Fin 37) = ascii ''37'' @ suffix_minutes"
    by (simp add: minToTimeString_def ascii_def digits_small digits_large)
  have per: "percentiles [Fin 40, Fin 10, Fin 30, Fin 20] =
      Some (ascii ''25'' @ suffix_minutes, ascii ''37'' @ suffix_minutes)"
    unfolding percentiles_def p50 p90 by (simp add: m25 m37)
  let ?d = "example_record ''D'' [] (ascii ''24/01/05'') (Fin 40)"
  let ?a = "example_record ''A'' [] (ascii ''24/01/05'') (Fin 10)"
  let ?c = "example_record ''C'' [] (ascii ''24/01/05'') (Fin 30)"
  let ?b = "example_record ''B'' [] (ascii ''24/01/05'') (Fin 20)"
  have kept: "keep ?d" "keep ?a" "keep ?c" "keep ?b"
    by (simp_all add: keep_dropped_spec dropped_spec_def example_record_def ascii_def
        same_letter_def)
  have survivors: "filter keep [?d, ?a, ?c, ?b] = [?d, ?a, ?c, ?b]"
    using kept by simp
  have firsts: "map result_firstCommentLeadTime [?d, ?a, ?c, ?b] =
      [Fin 40, Fin 10, Fin 30, Fin 20]"
    by (simp add: example_record_def)
  have approvals: "map result_approvedLeadTime [?d, ?a, ?c, ?b] =
      [Fin 40, Fin 10, Fin 30, Fin 20]"
    by (simp add: example_record_def)
  have "report env [?d, ?a, ?c, ?b] =
      Some [Header (REPO env) (RANGE_OF_DATE env) 4,
        FirstCommentSummary (ascii ''25'' @ suffix_minutes) (ascii ''37'' @ suffix_minutes),
        ApprovedSummary (ascii ''25'' @ suffix_minutes) (ascii ''37'' @ suffix_minutes)]"
    unfolding report_def Let_def survivors firsts approvals per by simp
  with q50 q90 p90 show ?thesis
    by simp
qed

end
